theory Spec2Isabelle
  imports Complex_Main
begin

section \<open>packages/mcp/src/utils.ts\<close>

subsection \<open>truncateContent\<close>

text \<open>
  \<^verbatim>\<open>content.substring(0, n)\<close>: JavaScript clamps the end index to the range from 0 to
  the length of the string, so a negative \<open>n\<close> selects nothing. Strings are lists of
  code units; \<open>maxLength\<close> is a JavaScript number, modelled on its integer values.
\<close>

definition substring0 :: "string \<Rightarrow> int \<Rightarrow> string" where
  "substring0 s n = take (nat (max 0 n)) s"

definition truncateContent :: "string \<Rightarrow> int \<Rightarrow> string" where
  "truncateContent content maxLength =
     (if int (length content) \<le> maxLength then content
      else substring0 content maxLength @ ''...'')"

subsection \<open>Node's path.resolve on a POSIX platform\<close>

text \<open>
  \<^verbatim>\<open>path.resolve\<close> belongs to the Node.js runtime. Its POSIX variant is modelled for
  the one-argument call that \<open>normalizePath\<close> makes: the argument is prefixed with the
  working directory unless it starts with a slash, the text is cut at every slash, empty
  and \<open>.\<close> segments are dropped, a \<open>..\<close> segment removes the segment before it,
  and the remaining segments are joined again. A backslash is an ordinary character of a
  segment here.
\<close>

definition backslash :: char where
  "backslash = CHR 0x5C"

fun splitSlash :: "string \<Rightarrow> string list" where
  "splitSlash [] = [[]]"
| "splitSlash (c # cs) =
     (if c = CHR ''/'' then [] # splitSlash cs
      else (case splitSlash cs of
              [] \<Rightarrow> [[c]]
            | seg # segs \<Rightarrow> (c # seg) # segs))"

fun joinSlash :: "string list \<Rightarrow> string" where
  "joinSlash [] = []"
| "joinSlash [s] = s"
| "joinSlash (s # t # ss) = s @ CHR ''/'' # joinSlash (t # ss)"

text \<open>
  \<open>normalizeString\<close> of Node, on segments; \<open>acc\<close> holds the segments kept so far, the
  last one first. \<open>allowAboveRoot\<close> is set when the text is not absolute.
\<close>

fun normalizeString :: "bool \<Rightarrow> string list \<Rightarrow> string list \<Rightarrow> string list" where
  "normalizeString allowAboveRoot acc [] = rev acc"
| "normalizeString allowAboveRoot acc (s # ss) =
     (if s = [] \<or> s = ''.'' then normalizeString allowAboveRoot acc ss
      else if s = ''..'' then
        (case acc of
           [] \<Rightarrow> normalizeString allowAboveRoot (if allowAboveRoot then [''..''] else []) ss
         | a # as \<Rightarrow>
             if a = ''..'' then
               normalizeString allowAboveRoot (if allowAboveRoot then ''..'' # acc else acc) ss
             else normalizeString allowAboveRoot as ss)
      else normalizeString allowAboveRoot (s # acc) ss)"

definition isAbsolute :: "string \<Rightarrow> bool" where
  "isAbsolute p = (take 1 p = ''/'')"

definition posix_resolve :: "string \<Rightarrow> string \<Rightarrow> string" where
  "posix_resolve cwd p =
     (let r0 = (if p = [] then [] else p @ ''/'');
          abs0 = isAbsolute p;
          r1 = (if abs0 \<or> cwd = [] then r0 else cwd @ ''/'' @ r0);
          abs1 = (abs0 \<or> isAbsolute cwd);
          res = joinSlash (normalizeString (\<not> abs1) [] (splitSlash r1))
      in if abs1 then CHR ''/'' # res else if res \<noteq> [] then res else ''.'')"

subsection \<open>normalizePath\<close>

text \<open>
  The part of the Node.js process that \<open>normalizePath\<close> reads: \<^verbatim>\<open>process.platform\<close>
  and \<^verbatim>\<open>path.resolve\<close> (which depends on the platform and the working directory).
\<close>

record node_runtime =
  platform :: string
  path_resolve :: "string \<Rightarrow> string"

definition posix_runtime :: "string \<Rightarrow> node_runtime" where
  "posix_runtime cwd = \<lparr>platform = ''linux'', path_resolve = posix_resolve cwd\<rparr>"

text \<open>\<^verbatim>\<open>normalized.replace(/\\/g, '/')\<close>\<close>

definition replaceBackslashes :: "string \<Rightarrow> string" where
  "replaceBackslashes s = map (\<lambda>c. if c = backslash then CHR ''/'' else c) s"

definition isAsciiLetter :: "char \<Rightarrow> bool" where
  "isAsciiLetter c =
     (let n = (of_char c :: nat) in (65 \<le> n \<and> n \<le> 90) \<or> (97 \<le> n \<and> n \<le> 122))"

text \<open>\<^verbatim>\<open>/^[a-zA-Z]:\/$/.test(normalized)\<close>\<close>

fun isDriveRoot :: "string \<Rightarrow> bool" where
  "isDriveRoot [d, c, s] = (isAsciiLetter d \<and> c = CHR '':'' \<and> s = CHR ''/'')"
| "isDriveRoot _ = False"

text \<open>
  The \<^verbatim>\<open>while\<close> loop that removes trailing slashes; \<^verbatim>\<open>break\<close> leaves a drive
  root as it is.
\<close>

function stripTrailingSlashes :: "string \<Rightarrow> string" where
  "stripTrailingSlashes normalized =
     (if length normalized > 1 \<and> last normalized = CHR ''/'' then
        (if isDriveRoot normalized then normalized
         else stripTrailingSlashes (butlast normalized))
      else normalized)"
  by pat_completeness auto
termination
  by (relation "measure length") auto

declare stripTrailingSlashes.simps [simp del]

text \<open>
  \<^verbatim>\<open>toLowerCase\<close> on the ASCII letters; other code units are left as they are.
\<close>

definition toLowerChar :: "char \<Rightarrow> char" where
  "toLowerChar c =
     (let n = (of_char c :: nat) in if 65 \<le> n \<and> n \<le> 90 then char_of (n + 32) else c)"

definition toLowerCase :: "string \<Rightarrow> string" where
  "toLowerCase s = map toLowerChar s"

definition normalizePath :: "node_runtime \<Rightarrow> string \<Rightarrow> string" where
  "normalizePath rt inputPath =
     (if inputPath = [] then inputPath
      else
        (let normalized1 = path_resolve rt inputPath;
             normalized2 = replaceBackslashes normalized1;
             normalized3 = stripTrailingSlashes normalized2
         in if platform rt = ''win32'' then toLowerCase normalized3 else normalized3))"

definition ensureAbsolutePath :: "node_runtime \<Rightarrow> string \<Rightarrow> string" where
  "ensureAbsolutePath rt inputPath = normalizePath rt inputPath"

section \<open>Values thrown by JavaScript code\<close>

text \<open>
  A thrown value is either an \<^verbatim>\<open>Error\<close> object, with its \<^verbatim>\<open>name\<close> and its
  \<^verbatim>\<open>message\<close>, or some other value, of which the code reads a \<^verbatim>\<open>message\<close>
  property (absent for most values) and the text that \<^verbatim>\<open>String(value)\<close> gives.
\<close>

datatype js_thrown =
  ErrorObject string string
| OtherValue "string option" string

fun messageOf :: "js_thrown \<Rightarrow> string option" where
  "messageOf (ErrorObject n m) = Some m"
| "messageOf (OtherValue mo s) = mo"

text \<open>\<^verbatim>\<open>String(error)\<close>; for an Error object this is \<^verbatim>\<open>Error.prototype.toString\<close>.\<close>

fun String_js :: "js_thrown \<Rightarrow> string" where
  "String_js (ErrorObject n m) =
     (if n = [] then m else if m = [] then n else n @ '': '' @ m)"
| "String_js (OtherValue mo s) = s"

text \<open>A string or \<^verbatim>\<open>undefined\<close> in a condition: only a non-empty string is truthy.\<close>

fun truthy :: "string option \<Rightarrow> bool" where
  "truthy None = False"
| "truthy (Some s) = (s \<noteq> [])"

text \<open>\<^verbatim>\<open>a || b\<close> on such values, and \<^verbatim>\<open>a || 'literal'\<close>.\<close>

definition orElse :: "string option \<Rightarrow> string option \<Rightarrow> string option" where
  "orElse a b = (if truthy a then a else b)"

definition orDefault :: "string option \<Rightarrow> string \<Rightarrow> string" where
  "orDefault a d = (case a of None \<Rightarrow> d | Some s \<Rightarrow> if s = [] then d else s)"

section \<open>packages/core/src/embedding/vertexai-embedding.ts\<close>

subsection \<open>Configuration and the model registry\<close>

text \<open>
  A JavaScript number that may be \<^verbatim>\<open>undefined\<close> is an \<open>int option\<close>; a number is
  truthy when it is not zero.
\<close>

type_synonym js_number = "int option"

fun truthyNumber :: "js_number \<Rightarrow> bool" where
  "truthyNumber None = False"
| "truthyNumber (Some n) = (n \<noteq> 0)"

record VertexAIEmbeddingConfig =
  model :: string
  projectId :: "string option"
  location :: "string option"
  outputDimensionality :: js_number

text \<open>The four variables of \<^verbatim>\<open>process.env\<close> that the constructor reads.\<close>

record process_env =
  VERTEX_PROJECT :: "string option"
  GOOGLE_CLOUD_PROJECT :: "string option"
  VERTEX_LOCATION :: "string option"
  GOOGLE_CLOUD_LOCATION :: "string option"

record ModelInfo =
  info_dimension :: int
  contextLength :: int
  description :: string
  supportedDimensions :: "int list option"

text \<open>
  \<^verbatim>\<open>getSupportedModels()[name]\<close> reads a property of an object literal. The literal
  has one key of its own; a name that \<^verbatim>\<open>Object.prototype\<close> defines is found on the
  prototype instead and yields a function or object without the fields of a registry
  entry.
\<close>

datatype 'a js_property = Own 'a | Inherited | Absent

definition objectPrototypeKeys :: "string list" where
  "objectPrototypeKeys =
     [''constructor'', ''hasOwnProperty'', ''isPrototypeOf'', ''propertyIsEnumerable'',
      ''toLocaleString'', ''toString'', ''valueOf'', ''__proto__'',
      ''__defineGetter__'', ''__defineSetter__'', ''__lookupGetter__'', ''__lookupSetter__'']"

definition getSupportedModels :: "(string \<times> ModelInfo) list" where
  "getSupportedModels =
     [(''gemini-embedding-001'',
       \<lparr>info_dimension = 3072, contextLength = 2048,
        description = ''Gemini text embedding model served via Vertex AI (recommended)'',
        supportedDimensions = Some [3072, 1536, 768, 256]\<rparr>)]"

definition lookupModel :: "string \<Rightarrow> ModelInfo js_property" where
  "lookupModel name =
     (case map_of getSupportedModels name of
        Some info \<Rightarrow> Own info
      | None \<Rightarrow> if name \<in> set objectPrototypeKeys then Inherited else Absent)"

text \<open>\<^verbatim>\<open>config.model || 'gemini-embedding-001'\<close>\<close>

definition modelOrDefault :: "VertexAIEmbeddingConfig \<Rightarrow> string" where
  "modelOrDefault cfg = (if model cfg \<noteq> [] then model cfg else ''gemini-embedding-001'')"

subsection \<open>The provider object\<close>

text \<open>
  Field names are global here, so three fields that share a name with a field of the
  provider or of the configuration carry a prefix: \<open>info_dimension\<close> is the
  \<^verbatim>\<open>dimension\<close> of a registry entry, \<open>client_location\<close> the \<^verbatim>\<open>location\<close> of the
  client options, and \<open>vector_dimension\<close> the \<^verbatim>\<open>dimension\<close> of an embedding vector.
\<close>

record GoogleGenAIOptions =
  vertexai :: bool
  project :: string
  client_location :: string

record VertexAIEmbedding =
  client :: GoogleGenAIOptions
  config :: VertexAIEmbeddingConfig
  dimension :: js_number
  maxTokens :: js_number

definition updateDimensionForModel :: "VertexAIEmbedding \<Rightarrow> string \<Rightarrow> VertexAIEmbedding" where
  "updateDimensionForModel this name =
     (case lookupModel name of
        Own modelInfo \<Rightarrow>
          this\<lparr>dimension := Some (info_dimension modelInfo),
               maxTokens := Some (contextLength modelInfo)\<rparr>
      | Inherited \<Rightarrow> this\<lparr>dimension := None, maxTokens := None\<rparr>
      | Absent \<Rightarrow> this\<lparr>dimension := Some 3072, maxTokens := Some 2048\<rparr>)"

definition projectIdRequired :: js_thrown where
  "projectIdRequired = ErrorObject ''Error''
     ''[VertexAIEmbedding] Project ID is required. Set projectId in config or VERTEX_PROJECT / GOOGLE_CLOUD_PROJECT env.''"

text \<open>
  The constructor. The fields start at their initialisers (3072 and 2048); the client is
  the option object handed to \<^verbatim>\<open>new GoogleGenAI\<close>.
\<close>

definition VertexAIEmbedding_new ::
  "process_env \<Rightarrow> VertexAIEmbeddingConfig \<Rightarrow> js_thrown + VertexAIEmbedding" where
  "VertexAIEmbedding_new env cfg =
     (let projectId' =
            orElse (orElse (projectId cfg) (VERTEX_PROJECT env)) (GOOGLE_CLOUD_PROJECT env);
          location' =
            orDefault (orElse (orElse (location cfg) (VERTEX_LOCATION env))
                         (GOOGLE_CLOUD_LOCATION env)) ''global''
      in case projectId' of
           None \<Rightarrow> Inl projectIdRequired
         | Some pid \<Rightarrow>
             if pid = [] then Inl projectIdRequired
             else
               (let this0 =
                      \<lparr>client = \<lparr>vertexai = True, project = pid, client_location = location'\<rparr>,
                       config = cfg, dimension = Some 3072, maxTokens = Some 2048\<rparr>;
                    this1 = updateDimensionForModel this0 (modelOrDefault cfg)
                in Inr (if truthyNumber (outputDimensionality cfg)
                        then this1\<lparr>dimension := outputDimensionality cfg\<rparr>
                        else this1)))"

definition getDimension :: "VertexAIEmbedding \<Rightarrow> js_number" where
  "getDimension this = dimension this"

text \<open>\<^verbatim>\<open>modelInfo?.supportedDimensions || [this.dimension]\<close>: an array is always truthy.\<close>

definition getSupportedDimensions :: "VertexAIEmbedding \<Rightarrow> js_number list" where
  "getSupportedDimensions this =
     (case lookupModel (modelOrDefault (config this)) of
        Own modelInfo \<Rightarrow>
          (case supportedDimensions modelInfo of
             Some ds \<Rightarrow> map Some ds
           | None \<Rightarrow> [dimension this])
      | Inherited \<Rightarrow> [dimension this]
      | Absent \<Rightarrow> [dimension this])"

definition isDimensionSupported :: "VertexAIEmbedding \<Rightarrow> int \<Rightarrow> bool" where
  "isDimensionSupported this d = (Some d \<in> set (getSupportedDimensions this))"

subsection \<open>embedBatch\<close>

record EmbedContentRequest =
  req_model :: string
  req_contents :: "string list"
  req_outputDimensionality :: js_number

record ContentEmbedding =
  "values" :: "real list option"

record EmbedContentResponse =
  embeddings :: "ContentEmbedding list option"

record EmbeddingVector =
  vector :: "real list"
  vector_dimension :: nat

definition invalidResponse :: js_thrown where
  "invalidResponse = ErrorObject ''Error'' ''Vertex AI embedding API returned invalid response''"

definition invalidEmbeddingData :: js_thrown where
  "invalidEmbeddingData =
     ErrorObject ''Error'' ''Vertex AI embedding API returned invalid embedding data''"

text \<open>
  \<^verbatim>\<open>response.embeddings.map(...)\<close>, whose callback throws at the first embedding
  without \<^verbatim>\<open>values\<close>; an empty array of values is truthy and is kept.
\<close>

fun mapEmbeddings :: "ContentEmbedding list \<Rightarrow> js_thrown + EmbeddingVector list" where
  "mapEmbeddings [] = Inr []"
| "mapEmbeddings (embedding # rest) =
     (case values embedding of
        None \<Rightarrow> Inl invalidEmbeddingData
      | Some v \<Rightarrow>
          (case mapEmbeddings rest of
             Inl e \<Rightarrow> Inl e
           | Inr vs \<Rightarrow> Inr (\<lparr>vector = v, vector_dimension = length v\<rparr> # vs)))"

text \<open>
  The body of the \<^verbatim>\<open>try\<close> block. \<open>embedContent\<close> is the call
  \<^verbatim>\<open>client.models.embedContent\<close> of the backend: it returns a response or throws.
\<close>

definition embedContentRequest :: "VertexAIEmbedding \<Rightarrow> string list \<Rightarrow> EmbedContentRequest" where
  "embedContentRequest this processedTexts =
     \<lparr>req_model = modelOrDefault (config this), req_contents = processedTexts,
      req_outputDimensionality =
        (if truthyNumber (outputDimensionality (config this))
         then outputDimensionality (config this) else dimension this)\<rparr>"

definition embedBatch_try ::
  "(EmbedContentRequest \<Rightarrow> js_thrown + EmbedContentResponse) \<Rightarrow> VertexAIEmbedding \<Rightarrow>
   string list \<Rightarrow> js_thrown + EmbeddingVector list" where
  "embedBatch_try embedContent this processedTexts =
     (case embedContent (embedContentRequest this processedTexts) of
        Inl e \<Rightarrow> Inl e
      | Inr response \<Rightarrow>
          (case embeddings response of
             None \<Rightarrow> Inl invalidResponse
           | Some es \<Rightarrow> mapEmbeddings es))"

text \<open>
  The message of the error that the \<^verbatim>\<open>catch\<close> block throws:
  \<^verbatim>\<open>error instanceof Error ? error.message : 'Unknown error'\<close> after the prefix.
\<close>

definition batchFailure :: "js_thrown \<Rightarrow> js_thrown" where
  "batchFailure error =
     ErrorObject ''Error''
       (''Vertex AI batch embedding failed: '' @
        (case error of ErrorObject n m \<Rightarrow> m | OtherValue mo s \<Rightarrow> ''Unknown error''))"

text \<open>
  \<open>preprocessTexts\<close> is inherited from the base class \<^verbatim>\<open>Embedding\<close>, which is not
  among the sources; it is a parameter.
\<close>

definition embedBatch ::
  "(string list \<Rightarrow> string list) \<Rightarrow>
   (EmbedContentRequest \<Rightarrow> js_thrown + EmbedContentResponse) \<Rightarrow> VertexAIEmbedding \<Rightarrow>
   string list \<Rightarrow> js_thrown + EmbeddingVector list" where
  "embedBatch preprocessTexts embedContent this texts =
     (let processedTexts = preprocessTexts texts
      in case embedBatch_try embedContent this processedTexts of
           Inl error \<Rightarrow> Inl (batchFailure error)
         | Inr vectors \<Rightarrow> Inr vectors)"

section \<open>The snapshot store\<close>

text \<open>
  The class \<^verbatim>\<open>SnapshotManager\<close> is exported by the package but its file is not among
  the sources. Its records and operations follow the specification (sections 3 and 4.2).
  The store in memory is a map from path identities to records; the persisted state is
  such a map, or nothing when no readable state exists.
\<close>

datatype CodebaseStatus = not_indexed | indexing | indexed | index_failed

record IndexStats =
  indexedFiles :: int
  totalChunks :: int
  status :: string

record IndexRecord =
  record_status :: CodebaseStatus
  progressPercentage :: real
  lastIndexedStats :: "IndexStats option"
  lastError :: "string option"
  updatedAt :: nat

type_synonym snapshot = "string \<rightharpoonup> IndexRecord"

text \<open>
  Modelled from the spec: \<^verbatim>\<open>load()\<close>, missing with the snapshot manager. It reads the
  persisted state, and starts from the empty mapping when there is none.
\<close>

definition loadCodebaseSnapshot :: "snapshot option \<Rightarrow> snapshot" where
  "loadCodebaseSnapshot persisted = (case persisted of None \<Rightarrow> Map.empty | Some m \<Rightarrow> m)"

text \<open>
  Modelled from the spec: \<^verbatim>\<open>save()\<close>, missing with the snapshot manager. It persists
  the full mapping held in memory.
\<close>

definition saveCodebaseSnapshot :: "snapshot \<Rightarrow> snapshot option" where
  "saveCodebaseSnapshot m = Some m"

text \<open>
  Modelled from the spec: \<^verbatim>\<open>getStatus(identity)\<close>, missing with the snapshot manager;
  \<open>not_indexed\<close> when there is no record.
\<close>

definition getCodebaseStatus :: "snapshot \<Rightarrow> string \<Rightarrow> CodebaseStatus" where
  "getCodebaseStatus m identity =
     (case m identity of None \<Rightarrow> not_indexed | Some r \<Rightarrow> record_status r)"

text \<open>
  Modelled from the spec: \<^verbatim>\<open>setIndexing(identity, initialProgress)\<close>, missing with
  the snapshot manager. It creates or overwrites the record; \<open>now\<close> is the time of the
  transition.
\<close>

definition setCodebaseIndexing :: "snapshot \<Rightarrow> string \<Rightarrow> real \<Rightarrow> nat \<Rightarrow> snapshot" where
  "setCodebaseIndexing m identity initialProgress now =
     m(identity \<mapsto>
        \<lparr>record_status = indexing, progressPercentage = initialProgress,
         lastIndexedStats = None, lastError = None, updatedAt = now\<rparr>)"

text \<open>The record that a transition starts from when the identity has none.\<close>

definition recordOf :: "snapshot \<Rightarrow> string \<Rightarrow> IndexRecord" where
  "recordOf m identity =
     (case m identity of
        None \<Rightarrow>
          \<lparr>record_status = not_indexed, progressPercentage = 0,
           lastIndexedStats = None, lastError = None, updatedAt = 0\<rparr>
      | Some r \<Rightarrow> r)"

text \<open>
  Modelled from the spec: \<^verbatim>\<open>setIndexed(identity, stats)\<close>, missing with the snapshot
  manager. It stores the stats and clears any earlier error.
\<close>

definition setCodebaseIndexed :: "snapshot \<Rightarrow> string \<Rightarrow> IndexStats \<Rightarrow> nat \<Rightarrow> snapshot" where
  "setCodebaseIndexed m identity stats now =
     m(identity \<mapsto>
        (recordOf m identity)
          \<lparr>record_status := indexed, lastIndexedStats := Some stats, lastError := None,
           updatedAt := now\<rparr>)"

text \<open>
  Modelled from the spec: \<^verbatim>\<open>setIndexFailed(identity, message, lastProgress)\<close>, missing
  with the snapshot manager. It keeps the last known progress and the stats of an earlier
  success.
\<close>

definition setCodebaseIndexFailed ::
  "snapshot \<Rightarrow> string \<Rightarrow> string \<Rightarrow> real \<Rightarrow> nat \<Rightarrow> snapshot" where
  "setCodebaseIndexFailed m identity message lastProgress now =
     m(identity \<mapsto>
        (recordOf m identity)
          \<lparr>record_status := index_failed, progressPercentage := lastProgress,
           lastError := Some message, updatedAt := now\<rparr>)"

text \<open>
  Modelled from the spec: the status operation (\<^verbatim>\<open>handleGetIndexingStatus\<close> of the
  tool handlers, not among the sources). A fresh engine loads the persisted state and
  returns the record of the path's identity; \<open>None\<close> is the implicit \<open>not_indexed\<close>.
\<close>

definition statusOperation :: "node_runtime \<Rightarrow> snapshot option \<Rightarrow> string \<Rightarrow> IndexRecord option" where
  "statusOperation rt persisted pathArg =
     loadCodebaseSnapshot persisted (ensureAbsolutePath rt pathArg)"

section \<open>The index command (runIndex)\<close>

text \<open>
  What one run of \<open>runIndex\<close> meets outside of itself: the Node.js runtime, the file
  system, the indexing context with its vector database, and the clock. A call of the
  pipeline is given by the progress events it sends to the callback, in order, and by
  how it ends: with stats, or with a thrown value. The custom extensions and ignore
  patterns that were added to the context before the call are passed along.
\<close>

record IndexProgress =
  phase :: string
  percentage :: real

record IndexOptions =
  force :: bool
  ext :: "string list"
  ignore :: "string list"

record RunEnv =
  runtime :: node_runtime
  existsSync :: "string \<Rightarrow> bool"
  isDirectory :: "string \<Rightarrow> bool"
  hasIndex :: "string \<Rightarrow> js_thrown + bool"
  checkCollectionLimit :: "js_thrown + bool"
  indexCodebase ::
    "string \<Rightarrow> string list \<Rightarrow> string list \<Rightarrow> bool \<Rightarrow> IndexProgress list \<times> (js_thrown + IndexStats)"
  COLLECTION_LIMIT_MESSAGE :: string
  timeOfStart :: nat
  timeOfEnd :: nat

text \<open>
  Every \<^verbatim>\<open>console.error(...); process.exit(1)\<close> of the function is an error value
  that carries the text written to the error stream; the names are those of the
  specification's taxonomy. All of them end the process with exit code 1.
\<close>

datatype RunError =
  PathError string
| ConcurrencyError string
| AlreadyIndexedError string
| CapacityError string
| IndexFailedError string

datatype Outcome =
  Completed IndexStats
| Exited RunError
| Rejected js_thrown

text \<open>
  The effects of a run on the snapshot file and on the progress output, in the order in
  which they happen. The outcome of the run comes after all of them.
\<close>

datatype Effect =
  SaveSnapshot snapshot
| ProgressLine IndexProgress

record RunResult =
  outcome :: Outcome
  persisted :: "snapshot option"
  effects :: "Effect list"

definition quoted :: "string \<Rightarrow> string" where
  "quoted s = CHR 0x27 # s @ [CHR 0x27]"

definition doesNotExist :: "string \<Rightarrow> string" where
  "doesNotExist absolutePath = ''Error: Path '' @ quoted absolutePath @ '' does not exist.''"

definition isNotADirectory :: "string \<Rightarrow> string" where
  "isNotADirectory absolutePath =
     ''Error: Path '' @ quoted absolutePath @ '' is not a directory.''"

definition alreadyBeingIndexed :: "string \<Rightarrow> string" where
  "alreadyBeingIndexed absolutePath =
     ''Codebase '' @ quoted absolutePath @ '' is already being indexed.''"

definition alreadyIndexed :: "string \<Rightarrow> string" where
  "alreadyIndexed absolutePath =
     ''Codebase '' @ quoted absolutePath @ '' is already indexed. Use --force to re-index.''"

text \<open>\<^verbatim>\<open>error?.message || String(error)\<close>\<close>

definition failureMessage :: "js_thrown \<Rightarrow> string" where
  "failureMessage error = orDefault (messageOf error) (String_js error)"

text \<open>
  The callback assigns the percentage of every event to \<^verbatim>\<open>lastProgress\<close>, which
  starts at 0.
\<close>

definition lastProgressOf :: "IndexProgress list \<Rightarrow> real" where
  "lastProgressOf events = foldl (\<lambda>lastProgress progress. percentage progress) 0 events"

text \<open>
  The part of \<open>runIndex\<close> from the transition to \<open>indexing\<close> on: the record is set and
  saved, the pipeline runs, and the \<^verbatim>\<open>try\<close> and \<^verbatim>\<open>catch\<close> blocks finish the run.
\<close>

definition runPipeline :: "RunEnv \<Rightarrow> snapshot \<Rightarrow> string \<Rightarrow> IndexOptions \<Rightarrow> RunResult" where
  "runPipeline env snapshotManager absolutePath options =
     (let started = setCodebaseIndexing snapshotManager absolutePath 0 (timeOfStart env);
          (events, result) =
             indexCodebase env absolutePath (ext options) (ignore options) (force options);
          lastProgress = lastProgressOf events
      in case result of
           Inr stats \<Rightarrow>
             (let finished = setCodebaseIndexed started absolutePath stats (timeOfEnd env)
              in \<lparr>outcome = Completed stats,
                  persisted = saveCodebaseSnapshot finished,
                  effects = SaveSnapshot started # map ProgressLine events @ [SaveSnapshot finished]\<rparr>)
         | Inl error \<Rightarrow>
             (let message = failureMessage error;
                  failed =
                    setCodebaseIndexFailed started absolutePath message lastProgress (timeOfEnd env)
              in \<lparr>outcome = Exited (IndexFailedError (''[INDEX] Failed: '' @ message)),
                  persisted = saveCodebaseSnapshot failed,
                  effects = SaveSnapshot started # map ProgressLine events @ [SaveSnapshot failed]\<rparr>))"

text \<open>
  \<open>runIndex\<close>, from the moment at which \<^verbatim>\<open>createEngine\<close> has returned an engine whose
  snapshot manager has loaded the persisted state, to the end of the run. A run that
  stops before the transition leaves the persisted state as it found it. The lines that
  \<^verbatim>\<open>console.log\<close> writes to the standard output are not part of the model.
\<close>

definition stopped :: "snapshot option \<Rightarrow> Outcome \<Rightarrow> RunResult" where
  "stopped persisted0 out = \<lparr>outcome = out, persisted = persisted0, effects = []\<rparr>"

definition runIndex :: "RunEnv \<Rightarrow> snapshot option \<Rightarrow> string \<Rightarrow> IndexOptions \<Rightarrow> RunResult" where
  "runIndex env persisted0 pathArg options =
     (let snapshotManager = loadCodebaseSnapshot persisted0;
          absolutePath = ensureAbsolutePath (runtime env) pathArg
      in if \<not> existsSync env absolutePath then
           stopped persisted0 (Exited (PathError (doesNotExist absolutePath)))
         else if \<not> isDirectory env absolutePath then
           stopped persisted0 (Exited (PathError (isNotADirectory absolutePath)))
         else if getCodebaseStatus snapshotManager absolutePath = indexing then
           stopped persisted0 (Exited (ConcurrencyError (alreadyBeingIndexed absolutePath)))
         else
           (case hasIndex env absolutePath of
              Inl thrown \<Rightarrow> stopped persisted0 (Rejected thrown)
            | Inr hasIndex' \<Rightarrow>
                if hasIndex' \<and> \<not> force options then
                  stopped persisted0 (Exited (AlreadyIndexedError (alreadyIndexed absolutePath)))
                else
                  (case checkCollectionLimit env of
                     Inl thrown \<Rightarrow> stopped persisted0 (Rejected thrown)
                   | Inr canCreate \<Rightarrow>
                       if \<not> canCreate then
                         stopped persisted0 (Exited (CapacityError (COLLECTION_LIMIT_MESSAGE env)))
                       else runPipeline env snapshotManager absolutePath options)))"

fun isPreflightFailure :: "Outcome \<Rightarrow> bool" where
  "isPreflightFailure (Exited (PathError m)) = True"
| "isPreflightFailure (Exited (ConcurrencyError m)) = True"
| "isPreflightFailure (Exited (AlreadyIndexedError m)) = True"
| "isPreflightFailure (Exited (CapacityError m)) = True"
| "isPreflightFailure other = False"

section \<open>Notions of the specification\<close>

text \<open>
  The tiers of a configuration parameter, as the specification describes them: the
  tiers are tried in order and the first one that holds a non-empty value decides.
\<close>

fun resolveTiers :: "string option list \<Rightarrow> string option" where
  "resolveTiers [] = None"
| "resolveTiers (None # tiers) = resolveTiers tiers"
| "resolveTiers (Some s # tiers) = (if s = [] then resolveTiers tiers else Some s)"

text \<open>
  A segment of a resolved path: not empty, neither \<open>.\<close> nor \<open>..\<close>, and without a
  slash.
\<close>

definition cleanSegment :: "string \<Rightarrow> bool" where
  "cleanSegment s = (s \<noteq> [] \<and> s \<noteq> ''.'' \<and> s \<noteq> ''..'' \<and> CHR ''/'' \<notin> set s)"

text \<open>An embedding of the backend that carries vector data, and the vector made of it.\<close>

definition withValues :: "real list \<Rightarrow> ContentEmbedding" where
  "withValues v = \<lparr>values = Some v\<rparr>"

definition vectorOf :: "real list \<Rightarrow> EmbeddingVector" where
  "vectorOf v = \<lparr>vector = v, vector_dimension = length v\<rparr>"

text \<open>The record of an identity right after the transition to \<open>indexing\<close> with progress 0.\<close>

definition indexingRecord :: "nat \<Rightarrow> IndexRecord" where
  "indexingRecord now =
     \<lparr>record_status = indexing, progressPercentage = 0,
      lastIndexedStats = None, lastError = None, updatedAt = now\<rparr>"

text \<open>
  The four pre-flight checks of the run algorithm (steps 1 to 4 of the specification),
  all of them passing: the path exists and is a directory, the identity is not being
  indexed, no index exists unless the run is forced, and the backend has capacity.
\<close>

definition preflightPasses :: "RunEnv \<Rightarrow> snapshot option \<Rightarrow> string \<Rightarrow> IndexOptions \<Rightarrow> bool" where
  "preflightPasses env persisted0 absolutePath options =
     (existsSync env absolutePath \<and> isDirectory env absolutePath \<and>
      getCodebaseStatus (loadCodebaseSnapshot persisted0) absolutePath \<noteq> indexing \<and>
      (hasIndex env absolutePath = Inr False \<or>
       (hasIndex env absolutePath = Inr True \<and> force options)) \<and>
      checkCollectionLimit env = Inr True)"

section \<open>Example inputs\<close>

definition emptyEnv :: process_env where
  "emptyEnv =
     \<lparr>VERTEX_PROJECT = None, GOOGLE_CLOUD_PROJECT = None,
      VERTEX_LOCATION = None, GOOGLE_CLOUD_LOCATION = None\<rparr>"

definition cloudEnv :: process_env where
  "cloudEnv =
     \<lparr>VERTEX_PROJECT = Some [], GOOGLE_CLOUD_PROJECT = Some ''cloud-project'',
      VERTEX_LOCATION = None, GOOGLE_CLOUD_LOCATION = Some ''us-central1''\<rparr>"

definition bareConfig :: VertexAIEmbeddingConfig where
  "bareConfig =
     \<lparr>model = ''gemini-embedding-001'', projectId = None, location = None,
      outputDimensionality = None\<rparr>"

definition zeroOverrideConfig :: VertexAIEmbeddingConfig where
  "zeroOverrideConfig =
     \<lparr>model = ''gemini-embedding-001'', projectId = Some ''demo'', location = None,
      outputDimensionality = Some 0\<rparr>"

definition overrideConfig :: VertexAIEmbeddingConfig where
  "overrideConfig =
     \<lparr>model = ''text-embedding-005'', projectId = Some ''demo'', location = None,
      outputDimensionality = Some 768\<rparr>"

definition unknownModelConfig :: VertexAIEmbeddingConfig where
  "unknownModelConfig =
     \<lparr>model = ''text-embedding-005'', projectId = Some ''demo'', location = None,
      outputDimensionality = None\<rparr>"

definition emptyModelConfig :: VertexAIEmbeddingConfig where
  "emptyModelConfig =
     \<lparr>model = [], projectId = Some ''demo'', location = None, outputDimensionality = None\<rparr>"

definition inheritedNameConfig :: VertexAIEmbeddingConfig where
  "inheritedNameConfig =
     \<lparr>model = ''constructor'', projectId = Some ''demo'', location = None,
      outputDimensionality = None\<rparr>"

definition demoProvider :: VertexAIEmbedding where
  "demoProvider =
     \<lparr>client = \<lparr>vertexai = True, project = ''demo'', client_location = ''global''\<rparr>,
      config = bareConfig, dimension = Some 3072, maxTokens = Some 2048\<rparr>"

text \<open>Backends: one answers two texts with two embeddings, one with a single embedding,
  one with an embedding that has no values, and one throws.\<close>

definition pairBackend :: "EmbedContentRequest \<Rightarrow> js_thrown + EmbedContentResponse" where
  "pairBackend request = Inr \<lparr>embeddings = Some [withValues [1, 2], withValues [3, 4]]\<rparr>"

definition shortBackend :: "EmbedContentRequest \<Rightarrow> js_thrown + EmbedContentResponse" where
  "shortBackend request = Inr \<lparr>embeddings = Some [withValues [1, 2]]\<rparr>"

definition holeBackend :: "EmbedContentRequest \<Rightarrow> js_thrown + EmbedContentResponse" where
  "holeBackend request = Inr \<lparr>embeddings = Some [withValues [1, 2], \<lparr>values = None\<rparr>]\<rparr>"

definition quotaBackend :: "EmbedContentRequest \<Rightarrow> js_thrown + EmbedContentResponse" where
  "quotaBackend request = Inl (ErrorObject ''ApiError'' ''quota exceeded'')"

definition keepTexts :: "string list \<Rightarrow> string list" where
  "keepTexts texts = texts"

text \<open>An environment for runs on \<open>/repo\<close>, whose pipeline reports progress 0 and 37 and
  then fails.\<close>

definition everywhere :: "bool \<Rightarrow> string \<Rightarrow> bool" where
  "everywhere b absolutePath = b"

definition withoutIndex :: "string \<Rightarrow> js_thrown + bool" where
  "withoutIndex absolutePath = Inr False"

definition timeoutPipeline ::
  "string \<Rightarrow> string list \<Rightarrow> string list \<Rightarrow> bool \<Rightarrow> IndexProgress list \<times> (js_thrown + IndexStats)" where
  "timeoutPipeline absolutePath extensions patterns forced =
     ([\<lparr>phase = ''Preparing'', percentage = 0\<rparr>, \<lparr>phase = ''Embedding'', percentage = 37\<rparr>],
      Inl (ErrorObject ''Error'' ''backend timeout''))"

definition repoEnv :: RunEnv where
  "repoEnv =
     \<lparr>runtime = posix_runtime ''/home/u'',
      existsSync = everywhere True, isDirectory = everywhere True,
      hasIndex = withoutIndex, checkCollectionLimit = Inr True,
      indexCodebase = timeoutPipeline,
      COLLECTION_LIMIT_MESSAGE = ''collection limit reached'',
      timeOfStart = 1, timeOfEnd = 2\<rparr>"

definition plainOptions :: IndexOptions where
  "plainOptions = \<lparr>force = False, ext = [], ignore = []\<rparr>"

definition repoIndexing :: "snapshot option" where
  "repoIndexing = Some (Map.empty(''/repo'' \<mapsto> indexingRecord 1))"

section \<open>truncateContent and normalizePath\<close>

text \<open>
  Claim C9, for every \<open>maxLength\<close> that is not negative: content no longer than
  \<open>maxLength\<close> comes back unchanged; longer content comes back as its first
  \<open>maxLength\<close> characters followed by three dots, so the result has length
  \<open>maxLength + 3\<close> and is longer than \<open>maxLength\<close>. (Content is never shorter than a
  negative \<open>maxLength\<close>, so the first part holds for every \<open>maxLength\<close>.)
\<close>

theorem truncateContent_result:
  "(int (length content) \<le> maxLength \<longrightarrow> truncateContent content maxLength = content) \<and>
   (0 \<le> maxLength \<and> maxLength < int (length content) \<longrightarrow>
      truncateContent content maxLength = take (nat maxLength) content @ ''...'' \<and>
      int (length (truncateContent content maxLength)) = maxLength + 3 \<and>
      maxLength < int (length (truncateContent content maxLength)))"
  by (auto simp: truncateContent_def substring0_def)

theorem truncateContent_result_witness:
  "truncateContent ''abc'' 5 = ''abc'' \<and> truncateContent ''abcdef'' 2 = ''ab...'' \<and>
   int (length (truncateContent ''abcdef'' 2)) = 5"
  using truncateContent_result [of "''abc''" 5] truncateContent_result [of "''abcdef''" 2]
  by simp

text \<open>
  With a negative \<open>maxLength\<close> the claim as stated fails: the result is the three dots
  alone, of length 3 and not \<open>maxLength + 3\<close>.
\<close>

theorem truncateContent_negative_counterexample:
  "truncateContent ''abc'' (- 1) = ''...'' \<and>
   int (length (truncateContent ''abc'' (- 1))) \<noteq> - 1 + 3"
  by (simp add: truncateContent_def substring0_def)

subsection \<open>The loop that strips trailing slashes\<close>

lemma stripTrailingSlashes_step:
  "length s > 1 \<Longrightarrow> last s = CHR ''/'' \<Longrightarrow> \<not> isDriveRoot s \<Longrightarrow>
     stripTrailingSlashes s = stripTrailingSlashes (butlast s)"
  by (subst stripTrailingSlashes.simps) simp

lemma stripTrailingSlashes_stop:
  "\<not> (length s > 1 \<and> last s = CHR ''/'' \<and> \<not> isDriveRoot s) \<Longrightarrow> stripTrailingSlashes s = s"
  by (subst stripTrailingSlashes.simps) auto

lemma stripTrailingSlashes_take1: "take 1 (stripTrailingSlashes s) = take 1 s"
proof (induction s rule: stripTrailingSlashes.induct)
  case (1 normalized)
  show ?case
  proof (cases "length normalized > 1 \<and> last normalized = CHR ''/'' \<and> \<not> isDriveRoot normalized")
    case True
    then have "take 1 (butlast normalized) = take 1 normalized"
      by (cases normalized) (auto split: if_splits)
    with 1 True show ?thesis
      by (simp add: stripTrailingSlashes_step)
  next
    case False
    then show ?thesis
      by (simp add: stripTrailingSlashes_stop)
  qed
qed

lemma stripTrailingSlashes_set: "set (stripTrailingSlashes s) \<subseteq> set s"
proof (induction s rule: stripTrailingSlashes.induct)
  case (1 normalized)
  show ?case
  proof (cases "length normalized > 1 \<and> last normalized = CHR ''/'' \<and> \<not> isDriveRoot normalized")
    case True
    have "set (butlast normalized) \<subseteq> set normalized"
      by (meson in_set_butlastD subsetI)
    with 1 True show ?thesis
      by (auto simp: stripTrailingSlashes_step)
  next
    case False
    then show ?thesis
      by (simp add: stripTrailingSlashes_stop)
  qed
qed

lemma stripTrailingSlashes_done:
  "length (stripTrailingSlashes s) \<le> 1 \<or> last (stripTrailingSlashes s) \<noteq> CHR ''/''
     \<or> isDriveRoot (stripTrailingSlashes s)"
proof (induction s rule: stripTrailingSlashes.induct)
  case (1 normalized)
  show ?case
  proof (cases "length normalized > 1 \<and> last normalized = CHR ''/'' \<and> \<not> isDriveRoot normalized")
    case True
    with 1 show ?thesis
      by (simp add: stripTrailingSlashes_step)
  next
    case False
    then show ?thesis
      by (auto simp: stripTrailingSlashes_stop)
  qed
qed

subsection \<open>Lower case keeps slashes, backslashes and drive roots\<close>

lemma of_char_toLowerChar:
  "(of_char (toLowerChar c) :: nat) =
     (if 65 \<le> (of_char c :: nat) \<and> (of_char c :: nat) \<le> 90 then of_char c + 32 else of_char c)"
  by (simp add: toLowerChar_def Let_def)

lemma toLowerChar_slash: "toLowerChar c = CHR ''/'' \<longleftrightarrow> c = CHR ''/''"
proof
  assume "toLowerChar c = CHR ''/''"
  then have "(of_char (toLowerChar c) :: nat) = 47" by simp
  then have "\<not> (65 \<le> (of_char c :: nat) \<and> (of_char c :: nat) \<le> 90)"
    by (auto simp: of_char_toLowerChar split: if_splits)
  with \<open>toLowerChar c = CHR ''/''\<close> show "c = CHR ''/''"
    by (auto simp: toLowerChar_def Let_def)
next
  assume "c = CHR ''/''"
  then show "toLowerChar c = CHR ''/''" by (simp add: toLowerChar_def)
qed

lemma toLowerChar_backslash: "toLowerChar c = backslash \<Longrightarrow> c = backslash"
proof -
  assume a: "toLowerChar c = backslash"
  then have "(of_char (toLowerChar c) :: nat) = 92" by (simp add: backslash_def)
  then have "\<not> (65 \<le> (of_char c :: nat) \<and> (of_char c :: nat) \<le> 90)"
    by (auto simp: of_char_toLowerChar split: if_splits)
  with a show "c = backslash"
    by (auto simp: toLowerChar_def Let_def)
qed

lemma toLowerChar_colon: "toLowerChar c = CHR '':'' \<longleftrightarrow> c = CHR '':''"
proof
  assume a: "toLowerChar c = CHR '':''"
  then have "(of_char (toLowerChar c) :: nat) = 58" by simp
  then have "\<not> (65 \<le> (of_char c :: nat) \<and> (of_char c :: nat) \<le> 90)"
    by (auto simp: of_char_toLowerChar split: if_splits)
  with a show "c = CHR '':''"
    by (auto simp: toLowerChar_def Let_def)
next
  assume "c = CHR '':''"
  then show "toLowerChar c = CHR '':''" by (simp add: toLowerChar_def)
qed

lemma isAsciiLetter_toLowerChar: "isAsciiLetter c \<Longrightarrow> isAsciiLetter (toLowerChar c)"
  by (auto simp: isAsciiLetter_def of_char_toLowerChar Let_def)

lemma isDriveRoot_toLowerCase: "isDriveRoot s \<Longrightarrow> isDriveRoot (toLowerCase s)"
  by (cases s rule: isDriveRoot.cases)
     (auto simp: toLowerCase_def isAsciiLetter_toLowerChar toLowerChar_slash toLowerChar_colon)

lemma last_toLowerCase_slash:
  "s \<noteq> [] \<Longrightarrow> last (toLowerCase s) = CHR ''/'' \<longleftrightarrow> last s = CHR ''/''"
  by (simp add: toLowerCase_def last_map toLowerChar_slash)

lemma backslash_toLowerCase: "backslash \<notin> set s \<Longrightarrow> backslash \<notin> set (toLowerCase s)"
proof
  assume a: "backslash \<notin> set s" and "backslash \<in> set (toLowerCase s)"
  then obtain c where "c \<in> set s" and "toLowerChar c = backslash"
    by (auto simp: toLowerCase_def)
  with a show False
    using toLowerChar_backslash [of c] by simp
qed

lemma length_toLowerCase: "length (toLowerCase s) = length s"
  by (simp add: toLowerCase_def)

subsection \<open>The shape of a normalized path\<close>

lemma isDriveRoot_not_absolute: "isDriveRoot s \<Longrightarrow> \<not> isAbsolute s"
  by (cases s rule: isDriveRoot.cases) (auto simp: isAbsolute_def isAsciiLetter_def)

lemma replaceBackslashes_no_backslash: "backslash \<notin> set (replaceBackslashes s)"
  by (auto simp: replaceBackslashes_def backslash_def)

lemma replaceBackslashes_absolute: "isAbsolute s \<Longrightarrow> isAbsolute (replaceBackslashes s)"
  by (cases s) (auto simp: replaceBackslashes_def isAbsolute_def)

lemma posix_resolve_absolute: "isAbsolute cwd \<Longrightarrow> isAbsolute (posix_resolve cwd p)"
  by (simp add: posix_resolve_def isAbsolute_def Let_def)

lemma normalizePath_no_backslash:
  assumes "p \<noteq> []"
  shows "backslash \<notin> set (normalizePath rt p)"
proof -
  let ?q = "stripTrailingSlashes (replaceBackslashes (path_resolve rt p))"
  have "backslash \<notin> set ?q"
    using stripTrailingSlashes_set [of "replaceBackslashes (path_resolve rt p)"]
      replaceBackslashes_no_backslash [of "path_resolve rt p"]
    by auto
  then show ?thesis
    using assms by (simp add: normalizePath_def Let_def backslash_toLowerCase)
qed

lemma normalizePath_stripped:
  assumes "p \<noteq> []"
  shows "length (normalizePath rt p) \<le> 1 \<or> last (normalizePath rt p) \<noteq> CHR ''/''
     \<or> isDriveRoot (normalizePath rt p)"
proof -
  let ?q = "stripTrailingSlashes (replaceBackslashes (path_resolve rt p))"
  have q: "length ?q \<le> 1 \<or> last ?q \<noteq> CHR ''/'' \<or> isDriveRoot ?q"
    by (rule stripTrailingSlashes_done)
  show ?thesis
  proof (cases "platform rt = ''win32''")
    case False
    with q assms show ?thesis
      by (simp add: normalizePath_def Let_def)
  next
    case True
    have "length (toLowerCase ?q) \<le> 1 \<or> last (toLowerCase ?q) \<noteq> CHR ''/''
       \<or> isDriveRoot (toLowerCase ?q)"
    proof (cases "?q = []")
      case True
      then show ?thesis by (simp add: length_toLowerCase)
    next
      case False
      with q show ?thesis
        by (auto simp: last_toLowerCase_slash isDriveRoot_toLowerCase length_toLowerCase)
    qed
    with True assms show ?thesis
      by (simp add: normalizePath_def Let_def)
  qed
qed

lemma normalizePath_posix_absolute:
  assumes "p \<noteq> []" and "isAbsolute cwd"
  shows "isAbsolute (normalizePath (posix_runtime cwd) p)"
proof -
  let ?q = "replaceBackslashes (posix_resolve cwd p)"
  have "isAbsolute ?q"
    using assms(2) by (simp add: posix_resolve_absolute replaceBackslashes_absolute)
  then have "isAbsolute (stripTrailingSlashes ?q)"
    using stripTrailingSlashes_take1 [of ?q] by (simp add: isAbsolute_def)
  then show ?thesis
    using assms(1) by (simp add: normalizePath_def posix_runtime_def Let_def)
qed

text \<open>
  Claim C10: the empty string comes back unchanged and is not an absolute path. For
  every other input the result has no backslash and no trailing slash (a result of at
  most one character and a drive root \<open>c:/\<close> are left as they are), on every platform;
  on a POSIX platform with an absolute working directory the result is absolute.
\<close>

theorem normalizePath_empty_input:
  "normalizePath rt [] = [] \<and> \<not> isAbsolute (normalizePath rt []) \<and>
   (p \<noteq> [] \<longrightarrow>
      backslash \<notin> set (normalizePath rt p) \<and>
      (length (normalizePath rt p) \<le> 1 \<or> last (normalizePath rt p) \<noteq> CHR ''/''
         \<or> isDriveRoot (normalizePath rt p))) \<and>
   (p \<noteq> [] \<and> isAbsolute cwd \<longrightarrow> isAbsolute (normalizePath (posix_runtime cwd) p))"
  using normalizePath_no_backslash [of p rt] normalizePath_stripped [of p rt]
    normalizePath_posix_absolute [of p cwd]
  by (simp add: normalizePath_def isAbsolute_def)

lemma normalizePath_repo:
  "normalizePath (posix_runtime ''/home/u'') ''/repo'' = ''/repo''"
  "normalizePath (posix_runtime ''/home/u'') ''/repo/'' = ''/repo''"
  by (simp_all add: normalizePath_def posix_runtime_def posix_resolve_def isAbsolute_def
      backslash_def replaceBackslashes_def stripTrailingSlashes.simps)

theorem normalizePath_empty_input_witness:
  "normalizePath (posix_runtime ''/home/u'') [] = [] \<and>
   isAbsolute (normalizePath (posix_runtime ''/home/u'') ''/repo/'') \<and>
   backslash \<notin> set (normalizePath (posix_runtime ''/home/u'') ''/repo/'') \<and>
   last (normalizePath (posix_runtime ''/home/u'') ''/repo/'') \<noteq> CHR ''/''"
  using normalizePath_empty_input [of "posix_runtime ''/home/u''" "''/repo/''" "''/home/u''"]
  by (simp add: normalizePath_repo isAbsolute_def)

text \<open>
  Claim C6 at a failing input. On a POSIX platform with working directory \<open>/home/u\<close>,
  the relative path \<open>.\repo\<close>, written with a backslash, normalizes to
  \<open>/home/u/./repo\<close>, in which the segment \<open>.\<close> is still there; normalizing that
  again gives \<open>/home/u/repo\<close>, so \<open>normalizePath\<close> is not idempotent at this input;
  and the same path written with a forward slash, \<open>./repo\<close>, normalizes to
  \<open>/home/u/repo\<close>, a different identity.
\<close>

theorem normalizePath_backslash_on_posix:
  "normalizePath (posix_runtime ''/home/u'') (CHR ''.'' # backslash # ''repo'') =
     ''/home/u/./repo'' \<and>
   normalizePath (posix_runtime ''/home/u'')
     (normalizePath (posix_runtime ''/home/u'') (CHR ''.'' # backslash # ''repo'')) =
     ''/home/u/repo'' \<and>
   normalizePath (posix_runtime ''/home/u'') ''./repo'' = ''/home/u/repo''"
  by (simp add: normalizePath_def posix_runtime_def posix_resolve_def isAbsolute_def
      backslash_def replaceBackslashes_def stripTrailingSlashes.simps)

subsection \<open>Paths without backslashes on a POSIX platform\<close>

text \<open>
  The segments that \<open>path.resolve\<close> leaves are clean, and a path made of clean
  segments is a fixed point of \<open>path.resolve\<close> and of the loop that strips slashes.
\<close>

lemma splitSlash_not_Nil: "splitSlash x \<noteq> []"
  by (induction x) (auto split: list.splits)

lemma splitSlash_no_slash: "s \<in> set (splitSlash x) \<Longrightarrow> CHR ''/'' \<notin> set s"
  by (induction x arbitrary: s) (auto split: list.splits if_splits)

lemma splitSlash_chars: "s \<in> set (splitSlash x) \<Longrightarrow> set s \<subseteq> set x"
proof (induction x arbitrary: s)
  case Nil
  then show ?case by simp
next
  case (Cons c cs)
  obtain seg segs where e: "splitSlash cs = seg # segs"
    using splitSlash_not_Nil [of cs] by (cases "splitSlash cs") auto
  then have "set seg \<subseteq> set cs" and "\<forall>t \<in> set segs. set t \<subseteq> set cs"
    using Cons.IH by auto
  with Cons.prems e show ?case
    by (auto split: if_splits)
qed

lemma splitSlash_slash: "splitSlash (CHR ''/'' # x) = [] # splitSlash x"
  by simp

lemma splitSlash_append_slash: "splitSlash (x @ ''/'') = splitSlash x @ [[]]"
proof (induction x)
  case Nil
  show ?case by simp
next
  case (Cons c cs)
  obtain seg segs where "splitSlash cs = seg # segs"
    using splitSlash_not_Nil [of cs] by (cases "splitSlash cs") auto
  with Cons show ?case by simp
qed

lemma splitSlash_segment:
  "CHR ''/'' \<notin> set s \<Longrightarrow> splitSlash (s @ CHR ''/'' # rest) = s # splitSlash rest"
  by (induction s) auto

lemma splitSlash_single: "CHR ''/'' \<notin> set s \<Longrightarrow> splitSlash s = [s]"
  by (induction s) auto

lemma splitSlash_joinSlash:
  "segs \<noteq> [] \<Longrightarrow> \<forall>s \<in> set segs. CHR ''/'' \<notin> set s \<Longrightarrow> splitSlash (joinSlash segs) = segs"
proof (induction segs rule: joinSlash.induct)
  case 1
  then show ?case by simp
next
  case (2 s)
  then show ?case by (simp add: splitSlash_single)
next
  case (3 s t ss)
  then show ?case by (simp add: splitSlash_segment)
qed

lemma joinSlash_chars: "set (joinSlash segs) \<subseteq> insert (CHR ''/'') (\<Union> (set ` set segs))"
  by (induction segs rule: joinSlash.induct) auto

lemma joinSlash_last:
  "segs \<noteq> [] \<Longrightarrow> last segs \<noteq> [] \<Longrightarrow>
     joinSlash segs \<noteq> [] \<and> last (joinSlash segs) = last (last segs)"
  by (induction segs rule: joinSlash.induct) auto

lemma normalizeString_clean:
  "\<forall>s \<in> set acc. cleanSegment s \<Longrightarrow> \<forall>s \<in> set segs. CHR ''/'' \<notin> set s \<Longrightarrow>
     \<forall>s \<in> set (normalizeString False acc segs). cleanSegment s"
proof (induction segs arbitrary: acc)
  case Nil
  then show ?case by simp
next
  case (Cons s ss)
  show ?case
  proof (cases "s = [] \<or> s = ''.''")
    case True
    with Cons show ?thesis by auto
  next
    case False
    show ?thesis
    proof (cases "s = ''..''")
      case True
      show ?thesis
      proof (cases acc)
        case Nil
        with True Cons.IH [of "[]"] Cons.prems(2) show ?thesis by simp
      next
        case (Cons a as)
        with \<open>\<forall>s \<in> set acc. cleanSegment s\<close>
        have "a \<noteq> ''..''" and "\<forall>s \<in> set as. cleanSegment s"
          by (auto simp: cleanSegment_def)
        with True Cons \<open>\<And>acc. \<forall>s \<in> set acc. cleanSegment s \<Longrightarrow>
            \<forall>s \<in> set ss. CHR ''/'' \<notin> set s \<Longrightarrow>
            \<forall>s \<in> set (normalizeString False acc ss). cleanSegment s\<close> [of as]
          \<open>\<forall>s \<in> set (s # ss). CHR ''/'' \<notin> set s\<close>
        show ?thesis by simp
      qed
    next
      case notdots: False
      from False notdots Cons.prems have "\<forall>t \<in> set (s # acc). cleanSegment t"
        by (auto simp: cleanSegment_def)
      with Cons.IH [of "s # acc"] Cons.prems(2) False notdots show ?thesis by simp
    qed
  qed
qed

lemma normalizeString_chars:
  "t \<in> set (normalizeString False acc segs) \<Longrightarrow> t \<in> set acc \<union> set segs"
proof (induction segs arbitrary: acc)
  case Nil
  then show ?case by simp
next
  case (Cons s ss)
  show ?case
  proof (cases "s = [] \<or> s = ''.''")
    case True
    with Cons.prems Cons.IH [of acc] show ?thesis by auto
  next
    case False
    show ?thesis
    proof (cases "s = ''..''")
      case True
      show ?thesis
      proof (cases acc)
        case Nil
        with True Cons.prems Cons.IH [of "[]"] show ?thesis by simp
      next
        case (Cons a as)
        with True \<open>t \<in> set (normalizeString False acc (s # ss))\<close>
        have "t \<in> set (normalizeString False acc ss) \<or> t \<in> set (normalizeString False as ss)"
          by (simp split: if_splits)
        then have "t \<in> set acc \<union> set ss \<or> t \<in> set as \<union> set ss"
          using \<open>\<And>acc. t \<in> set (normalizeString False acc ss) \<Longrightarrow> t \<in> set acc \<union> set ss\<close>
          by blast
        with Cons show ?thesis by auto
      qed
    next
      case notdots: False
      with False Cons.prems have "t \<in> set (normalizeString False (s # acc) ss)"
        by simp
      with Cons.IH [of "s # acc"] show ?thesis by auto
    qed
  qed
qed

lemma normalizeString_keeps:
  "\<forall>s \<in> set segs. cleanSegment s \<Longrightarrow> normalizeString b acc segs = rev acc @ segs"
  by (induction segs arbitrary: acc) (auto simp: cleanSegment_def)

lemma normalizeString_append_empty:
  "normalizeString b acc (segs @ [[]]) = normalizeString b acc segs"
  by (induction segs arbitrary: acc) (auto split: list.splits)

lemma posix_resolve_segments:
  assumes "isAbsolute cwd \<or> isAbsolute p"
  shows "\<exists>segs. (\<forall>s \<in> set segs. cleanSegment s) \<and> posix_resolve cwd p = CHR ''/'' # joinSlash segs \<and>
           \<Union> (set ` set segs) \<subseteq> set cwd \<union> set p"
proof -
  define r1 where "r1 = (if isAbsolute p \<or> cwd = [] then (if p = [] then [] else p @ ''/'')
      else cwd @ ''/'' @ (if p = [] then [] else p @ ''/''))"
  define segs where "segs = normalizeString False [] (splitSlash r1)"
  have r: "posix_resolve cwd p = CHR ''/'' # joinSlash segs"
    using assms by (auto simp: posix_resolve_def Let_def r1_def segs_def)
  have c: "\<forall>s \<in> set segs. cleanSegment s"
    unfolding segs_def
    by (rule normalizeString_clean) (auto dest: splitSlash_no_slash)
  have "set r1 \<subseteq> insert (CHR ''/'') (set cwd \<union> set p)"
    by (auto simp: r1_def)
  then have "\<forall>s \<in> set (splitSlash r1). set s \<subseteq> insert (CHR ''/'') (set cwd \<union> set p)"
    using splitSlash_chars by blast
  then have "\<forall>s \<in> set segs. set s \<subseteq> insert (CHR ''/'') (set cwd \<union> set p)"
    unfolding segs_def using normalizeString_chars [of _ "[]" "splitSlash r1"] by auto
  with c have "\<Union> (set ` set segs) \<subseteq> set cwd \<union> set p"
    by (auto simp: cleanSegment_def)
  with r c show ?thesis by blast
qed

lemma posix_resolve_fixed:
  assumes "\<forall>s \<in> set segs. cleanSegment s"
  shows "posix_resolve cwd (CHR ''/'' # joinSlash segs) = CHR ''/'' # joinSlash segs"
proof -
  have n: "\<forall>s \<in> set segs. CHR ''/'' \<notin> set s"
    using assms by (simp add: cleanSegment_def)
  have "normalizeString False [] (splitSlash (CHR ''/'' # joinSlash segs @ ''/'')) = segs"
  proof (cases "segs = []")
    case True
    then show ?thesis by simp
  next
    case False
    with n have "splitSlash (joinSlash segs) = segs"
      by (simp add: splitSlash_joinSlash)
    then have "splitSlash (CHR ''/'' # joinSlash segs @ ''/'') = [] # segs @ [[]]"
      using splitSlash_append_slash [of "joinSlash segs"] by simp
    then show ?thesis
      using assms by (simp add: normalizeString_append_empty normalizeString_keeps)
  qed
  then show ?thesis
    by (simp add: posix_resolve_def isAbsolute_def Let_def)
qed

lemma stripTrailingSlashes_clean:
  assumes "\<forall>s \<in> set segs. cleanSegment s"
  shows "stripTrailingSlashes (CHR ''/'' # joinSlash segs) = CHR ''/'' # joinSlash segs"
proof (cases "segs = []")
  case True
  then show ?thesis by (simp add: stripTrailingSlashes_stop)
next
  case False
  then have "last segs \<in> set segs" by simp
  with assms have e: "last segs \<noteq> []" and n: "CHR ''/'' \<notin> set (last segs)"
    by (auto simp: cleanSegment_def)
  have "last (last segs) \<noteq> CHR ''/''"
  proof
    assume "last (last segs) = CHR ''/''"
    moreover have "last (last segs) \<in> set (last segs)"
      using e by simp
    ultimately show False
      using n by simp
  qed
  with e have "joinSlash segs \<noteq> []" and "last (joinSlash segs) \<noteq> CHR ''/''"
    using False joinSlash_last [of segs] by auto
  then show ?thesis
    by (simp add: stripTrailingSlashes_stop)
qed

lemma replaceBackslashes_none: "backslash \<notin> set s \<Longrightarrow> replaceBackslashes s = s"
  by (induction s) (auto simp: replaceBackslashes_def)

text \<open>
  On a POSIX platform with an absolute working directory, for a path and a working
  directory without backslashes, \<open>normalizePath\<close> is the result of \<open>path.resolve\<close>, and
  normalizing it again changes nothing.
\<close>

lemma normalizePath_posix_idempotent:
  assumes "isAbsolute cwd" and "backslash \<notin> set cwd" and "backslash \<notin> set p"
  shows "normalizePath (posix_runtime cwd) (normalizePath (posix_runtime cwd) p) =
     normalizePath (posix_runtime cwd) p"
proof (cases "p = []")
  case True
  then show ?thesis by (simp add: normalizePath_def)
next
  case False
  obtain segs where c: "\<forall>s \<in> set segs. cleanSegment s"
    and r: "posix_resolve cwd p = CHR ''/'' # joinSlash segs"
    and u: "\<Union> (set ` set segs) \<subseteq> set cwd \<union> set p"
    using posix_resolve_segments [of cwd p] assms(1) by blast
  let ?q = "CHR ''/'' # joinSlash segs"
  have "set ?q \<subseteq> insert (CHR ''/'') (set cwd \<union> set p)"
    using joinSlash_chars [of segs] u by auto
  then have b: "backslash \<notin> set ?q"
    using assms(2,3) by (auto simp: backslash_def)
  have n: "normalizePath (posix_runtime cwd) p = ?q"
    using False b c
    by (simp add: normalizePath_def posix_runtime_def Let_def r replaceBackslashes_none
        stripTrailingSlashes_clean del: set_simps)
  have "normalizePath (posix_runtime cwd) ?q = ?q"
    using b c
    by (simp add: normalizePath_def posix_runtime_def Let_def posix_resolve_fixed
        replaceBackslashes_none stripTrailingSlashes_clean del: set_simps)
  with n show ?thesis by simp
qed

text \<open>A trailing slash makes no difference there.\<close>

lemma normalizePath_posix_trailing_slash:
  assumes "p \<noteq> []"
  shows "normalizePath (posix_runtime cwd) (p @ ''/'') = normalizePath (posix_runtime cwd) p"
proof -
  have a: "isAbsolute (p @ ''/'') = isAbsolute p"
    using assms by (cases p) (auto simp: isAbsolute_def)
  have "normalizeString b [] (splitSlash (x @ p @ ''//'')) =
      normalizeString b [] (splitSlash (x @ p @ ''/''))" for b x
    using splitSlash_append_slash [of "x @ p @ ''/''"]
    by (simp add: normalizeString_append_empty)
  from this [of _ "[]"] this [of _ "cwd @ ''/''"]
  have "posix_resolve cwd (p @ ''/'') = posix_resolve cwd p"
    using assms by (simp add: posix_resolve_def Let_def a)
  then show ?thesis
    using assms by (simp add: normalizePath_def posix_runtime_def Let_def)
qed

section \<open>The Vertex AI embedding provider\<close>

subsection \<open>Construction\<close>

lemma VertexAIEmbedding_new_cases:
  "VertexAIEmbedding_new env cfg =
     (case resolveTiers [projectId cfg, VERTEX_PROJECT env, GOOGLE_CLOUD_PROJECT env] of
        None \<Rightarrow> Inl projectIdRequired
      | Some pid \<Rightarrow>
          (let this1 =
                 updateDimensionForModel
                   \<lparr>client =
                      \<lparr>vertexai = True, project = pid,
                       client_location =
                         orDefault (orElse (orElse (location cfg) (VERTEX_LOCATION env))
                                      (GOOGLE_CLOUD_LOCATION env)) ''global''\<rparr>,
                    config = cfg, dimension = Some 3072, maxTokens = Some 2048\<rparr>
                   (modelOrDefault cfg)
           in Inr (if truthyNumber (outputDimensionality cfg)
                   then this1\<lparr>dimension := outputDimensionality cfg\<rparr>
                   else this1)))"
  by (cases "projectId cfg"; cases "VERTEX_PROJECT env"; cases "GOOGLE_CLOUD_PROJECT env")
     (auto simp: VertexAIEmbedding_new_def orElse_def Let_def)

lemma updateDimensionForModel_keeps:
  "client (updateDimensionForModel this name) = client this"
  "config (updateDimensionForModel this name) = config this"
  by (auto simp: updateDimensionForModel_def split: js_property.splits)

lemma location_tiers:
  "resolveTiers [location cfg, VERTEX_LOCATION env, GOOGLE_CLOUD_LOCATION env, Some ''global''] =
     Some (orDefault (orElse (orElse (location cfg) (VERTEX_LOCATION env))
                        (GOOGLE_CLOUD_LOCATION env)) ''global'')"
  by (cases "location cfg"; cases "VERTEX_LOCATION env"; cases "GOOGLE_CLOUD_LOCATION env")
     (auto simp: orElse_def orDefault_def)

text \<open>
  Claim C8. The project is the first non-empty value among the configuration and the
  variables \<open>VERTEX_PROJECT\<close> and \<open>GOOGLE_CLOUD_PROJECT\<close> (it has no built-in
  fallback); the location is the first non-empty value among the configuration, the
  variables \<open>VERTEX_LOCATION\<close> and \<open>GOOGLE_CLOUD_LOCATION\<close>, and the fallback
  \<open>global\<close>. Construction fails, with the error that asks for the project, exactly when
  no tier gives a project; with every tier empty it fails in that way.
\<close>

theorem VertexAIEmbedding_new_tiers:
  "(resolveTiers [projectId cfg, VERTEX_PROJECT env, GOOGLE_CLOUD_PROJECT env] = None \<longrightarrow>
      VertexAIEmbedding_new env cfg = Inl projectIdRequired) \<and>
   (resolveTiers [projectId cfg, VERTEX_PROJECT env, GOOGLE_CLOUD_PROJECT env] = Some pid \<longrightarrow>
      (\<exists>this. VertexAIEmbedding_new env cfg = Inr this \<and> project (client this) = pid \<and>
         resolveTiers
           [location cfg, VERTEX_LOCATION env, GOOGLE_CLOUD_LOCATION env, Some ''global''] =
           Some (client_location (client this)))) \<and>
   (\<not> truthy (projectId cfg) \<and> \<not> truthy (VERTEX_PROJECT env) \<and>
    \<not> truthy (GOOGLE_CLOUD_PROJECT env) \<longrightarrow>
      VertexAIEmbedding_new env cfg = Inl projectIdRequired)"
proof (intro conjI impI)
  assume "resolveTiers [projectId cfg, VERTEX_PROJECT env, GOOGLE_CLOUD_PROJECT env] = None"
  then show "VertexAIEmbedding_new env cfg = Inl projectIdRequired"
    by (simp add: VertexAIEmbedding_new_cases)
next
  assume "resolveTiers [projectId cfg, VERTEX_PROJECT env, GOOGLE_CLOUD_PROJECT env] = Some pid"
  then show "\<exists>this. VertexAIEmbedding_new env cfg = Inr this \<and> project (client this) = pid \<and>
      resolveTiers
        [location cfg, VERTEX_LOCATION env, GOOGLE_CLOUD_LOCATION env, Some ''global''] =
        Some (client_location (client this))"
    by (simp add: VertexAIEmbedding_new_cases Let_def location_tiers
        updateDimensionForModel_keeps)
next
  assume "\<not> truthy (projectId cfg) \<and> \<not> truthy (VERTEX_PROJECT env) \<and>
    \<not> truthy (GOOGLE_CLOUD_PROJECT env)"
  then show "VertexAIEmbedding_new env cfg = Inl projectIdRequired"
    by (cases "projectId cfg"; cases "VERTEX_PROJECT env"; cases "GOOGLE_CLOUD_PROJECT env")
       (auto simp: VertexAIEmbedding_new_cases)
qed

theorem VertexAIEmbedding_new_tiers_witness:
  "VertexAIEmbedding_new emptyEnv bareConfig = Inl projectIdRequired \<and>
   map_sum id client (VertexAIEmbedding_new cloudEnv bareConfig) =
     Inr \<lparr>vertexai = True, project = ''cloud-project'', client_location = ''us-central1''\<rparr>"
proof -
  have "VertexAIEmbedding_new emptyEnv bareConfig = Inl projectIdRequired"
    using VertexAIEmbedding_new_tiers [of bareConfig emptyEnv]
    by (simp add: emptyEnv_def bareConfig_def)
  moreover
  obtain this where t: "VertexAIEmbedding_new cloudEnv bareConfig = Inr this"
    and "project (client this) = ''cloud-project''"
    and "Some ''us-central1'' = Some (client_location (client this))"
    using VertexAIEmbedding_new_tiers [of bareConfig cloudEnv "''cloud-project''"]
    by (auto simp: cloudEnv_def bareConfig_def)
  moreover from t have "vertexai (client this)"
    by (auto simp: VertexAIEmbedding_new_cases updateDimensionForModel_keeps Let_def
        split: option.splits if_splits)
  ultimately show ?thesis by simp
qed

text \<open>
  Claim C4, for an override that is not zero: when construction succeeds, \<open>getDimension\<close>
  is the override, whatever the model and the registry say.
\<close>

theorem getDimension_override:
  "VertexAIEmbedding_new env cfg = Inr this \<Longrightarrow> outputDimensionality cfg = Some d \<Longrightarrow>
     d \<noteq> 0 \<Longrightarrow> getDimension this = Some d"
  by (auto simp: VertexAIEmbedding_new_cases getDimension_def Let_def split: option.splits)

theorem getDimension_override_witness:
  "map_sum id getDimension (VertexAIEmbedding_new emptyEnv overrideConfig) = Inr (Some 768)"
proof -
  obtain this where t: "VertexAIEmbedding_new emptyEnv overrideConfig = Inr this"
    by (cases "VertexAIEmbedding_new emptyEnv overrideConfig")
       (auto simp: VertexAIEmbedding_new_cases emptyEnv_def overrideConfig_def)
  have "getDimension this = Some 768"
    using getDimension_override [OF t, of 768] by (simp add: overrideConfig_def)
  with t show ?thesis by simp
qed

text \<open>
  An override of zero is an explicit value of the configuration, but the constructor
  tests it for truth and keeps the dimension of the registry.
\<close>

theorem getDimension_zero_override_counterexample:
  "outputDimensionality zeroOverrideConfig = Some 0 \<and>
   map_sum id getDimension (VertexAIEmbedding_new emptyEnv zeroOverrideConfig) = Inr (Some 3072)"
  by (simp add: zeroOverrideConfig_def emptyEnv_def VertexAIEmbedding_new_def orElse_def
      orDefault_def updateDimensionForModel_def lookupModel_def getSupportedModels_def
      modelOrDefault_def getDimension_def)

text \<open>
  Claim C7, for a model name that is not empty, is no key of the registry and is not a
  name that the registry object inherits: construction resolves the maximum token count
  2048 and, without a non-zero override, the dimension 3072; \<open>getSupportedDimensions\<close> is
  the single resolved dimension, and \<open>isDimensionSupported\<close> holds for that dimension
  only.
\<close>

theorem unknown_model_defaults:
  assumes "VertexAIEmbedding_new env cfg = Inr this"
    and "model cfg \<noteq> []"
    and "map_of getSupportedModels (model cfg) = None"
    and "model cfg \<notin> set objectPrototypeKeys"
  shows "(\<not> truthyNumber (outputDimensionality cfg) \<longrightarrow> getDimension this = Some 3072) \<and>
     maxTokens this = Some 2048 \<and>
     getSupportedDimensions this = [getDimension this] \<and>
     (\<forall>d. isDimensionSupported this d \<longleftrightarrow> getDimension this = Some d)"
proof -
  have l: "lookupModel (modelOrDefault cfg) = Absent"
    using assms(2-4) by (simp add: lookupModel_def modelOrDefault_def)
  have c: "config this = cfg"
    using assms(1)
    by (auto simp: VertexAIEmbedding_new_cases Let_def updateDimensionForModel_keeps
        split: option.splits if_splits)
  show ?thesis
    using assms(1)
    by (auto simp: VertexAIEmbedding_new_cases Let_def updateDimensionForModel_def l c
        getDimension_def getSupportedDimensions_def isDimensionSupported_def
        split: option.splits if_splits)
qed

theorem unknown_model_defaults_witness:
  "map_sum id getDimension (VertexAIEmbedding_new emptyEnv unknownModelConfig) = Inr (Some 3072) \<and>
   map_sum id maxTokens (VertexAIEmbedding_new emptyEnv unknownModelConfig) = Inr (Some 2048) \<and>
   map_sum id getSupportedDimensions (VertexAIEmbedding_new emptyEnv unknownModelConfig) =
     Inr [Some 3072]"
proof -
  obtain this where t: "VertexAIEmbedding_new emptyEnv unknownModelConfig = Inr this"
    by (cases "VertexAIEmbedding_new emptyEnv unknownModelConfig")
       (auto simp: VertexAIEmbedding_new_cases emptyEnv_def unknownModelConfig_def)
  have "getDimension this = Some 3072 \<and> maxTokens this = Some 2048 \<and>
      getSupportedDimensions this = [getDimension this]"
    using unknown_model_defaults [OF t]
    by (simp add: unknownModelConfig_def getSupportedModels_def objectPrototypeKeys_def)
  with t show ?thesis by simp
qed

text \<open>
  The empty model name is no key of the registry, but the provider then works with the
  default model \<open>gemini-embedding-001\<close> and supports the four dimensions of that model.
\<close>

theorem empty_model_counterexample:
  "map_of getSupportedModels (model emptyModelConfig) = None \<and>
   map_sum id getSupportedDimensions (VertexAIEmbedding_new emptyEnv emptyModelConfig) =
     Inr [Some 3072, Some 1536, Some 768, Some 256]"
  by (simp add: emptyModelConfig_def emptyEnv_def VertexAIEmbedding_new_def orElse_def
      orDefault_def updateDimensionForModel_def lookupModel_def getSupportedModels_def
      modelOrDefault_def getSupportedDimensions_def)

text \<open>
  A model name that the registry object inherits from \<open>Object.prototype\<close> is found by
  the lookup although it is no entry: the dimension and the token limit become
  \<open>undefined\<close>.
\<close>

lemma inherited_model_name:
  "map_sum id getDimension (VertexAIEmbedding_new emptyEnv inheritedNameConfig) = Inr None \<and>
   map_sum id maxTokens (VertexAIEmbedding_new emptyEnv inheritedNameConfig) = Inr None"
  by (simp add: inheritedNameConfig_def emptyEnv_def VertexAIEmbedding_new_def orElse_def
      orDefault_def updateDimensionForModel_def lookupModel_def getSupportedModels_def
      modelOrDefault_def getDimension_def objectPrototypeKeys_def)

subsection \<open>embedBatch\<close>

lemma vector_vectorOf: "vector (vectorOf v) = v"
  by (simp add: vectorOf_def)

lemma mapEmbeddings_all: "mapEmbeddings (map withValues vss) = Inr (map vectorOf vss)"
  by (induction vss) (auto simp: withValues_def vectorOf_def)

lemma mapEmbeddings_missing:
  "e \<in> set es \<Longrightarrow> values e = None \<Longrightarrow> mapEmbeddings es = Inl invalidEmbeddingData"
proof (induction es)
  case Nil
  then show ?case by simp
next
  case (Cons a es)
  show ?case
  proof (cases "values a")
    case None
    then show ?thesis by simp
  next
    case (Some v)
    with Cons have "e \<in> set es" by auto
    with Cons have "mapEmbeddings es = Inl invalidEmbeddingData" by simp
    with Some show ?thesis by simp
  qed
qed

text \<open>
  Claim C5, with the vectors counted against the response of the backend. When the
  backend call throws, when the response has no list of embeddings, or when one of the
  embeddings has no values, \<open>embedBatch\<close> fails as a whole and returns no vectors; the
  message of its error is the fixed prefix followed by the message of the cause (or by
  \<open>Unknown error\<close> when the thrown value is no Error object). Otherwise it returns one
  vector for each embedding of the response, in the order of the response; these are
  one per input text, in the order of the inputs, when the backend answers with one
  embedding per text.
\<close>

theorem embedBatch_whole_or_error:
  "(embedContent (embedContentRequest this (preprocessTexts texts)) = Inl cause \<longrightarrow>
      embedBatch preprocessTexts embedContent this texts = Inl (batchFailure cause)) \<and>
   (embedContent (embedContentRequest this (preprocessTexts texts)) =
        Inr \<lparr>embeddings = None\<rparr> \<longrightarrow>
      embedBatch preprocessTexts embedContent this texts = Inl (batchFailure invalidResponse)) \<and>
   (embedContent (embedContentRequest this (preprocessTexts texts)) =
        Inr \<lparr>embeddings = Some es\<rparr> \<and> (\<exists>e \<in> set es. values e = None) \<longrightarrow>
      embedBatch preprocessTexts embedContent this texts =
        Inl (batchFailure invalidEmbeddingData)) \<and>
   (embedContent (embedContentRequest this (preprocessTexts texts)) =
        Inr \<lparr>embeddings = Some (map withValues vss)\<rparr> \<longrightarrow>
      embedBatch preprocessTexts embedContent this texts = Inr (map vectorOf vss) \<and>
      (length vss = length texts \<longrightarrow>
         length (map vectorOf vss) = length texts \<and>
         (\<forall>i < length texts. vector (map vectorOf vss ! i) = vss ! i))) \<and>
   batchFailure (ErrorObject name message) =
      ErrorObject ''Error'' (''Vertex AI batch embedding failed: '' @ message) \<and>
   batchFailure (OtherValue mo s) =
      ErrorObject ''Error'' ''Vertex AI batch embedding failed: Unknown error''"
  by (auto simp: embedBatch_def embedBatch_try_def mapEmbeddings_all mapEmbeddings_missing
      batchFailure_def vector_vectorOf)

theorem embedBatch_whole_or_error_witness:
  "embedBatch keepTexts pairBackend demoProvider [''a'', ''b''] =
     Inr [vectorOf [1, 2], vectorOf [3, 4]] \<and>
   embedBatch keepTexts holeBackend demoProvider [''a'', ''b''] =
     Inl (ErrorObject ''Error''
       ''Vertex AI batch embedding failed: Vertex AI embedding API returned invalid embedding data'') \<and>
   embedBatch keepTexts quotaBackend demoProvider [''a'', ''b''] =
     Inl (ErrorObject ''Error'' ''Vertex AI batch embedding failed: quota exceeded'')"
  using embedBatch_whole_or_error
      [of pairBackend demoProvider keepTexts "[''a'', ''b'']" _ _ "[[1, 2], [3, 4]]"]
    embedBatch_whole_or_error
      [of holeBackend demoProvider keepTexts "[''a'', ''b'']" _
          "[withValues [1, 2], \<lparr>values = None\<rparr>]"]
    embedBatch_whole_or_error
      [of quotaBackend demoProvider keepTexts "[''a'', ''b'']"
          "ErrorObject ''ApiError'' ''quota exceeded''"]
  by (simp add: pairBackend_def holeBackend_def quotaBackend_def batchFailure_def
      invalidEmbeddingData_def)

text \<open>
  A backend that answers two texts with one embedding: \<open>embedBatch\<close> returns that one
  vector, which is neither one vector per input nor a failure.
\<close>

theorem embedBatch_short_response_counterexample:
  "embedBatch keepTexts shortBackend demoProvider [''a'', ''b''] = Inr [vectorOf [1, 2]] \<and>
   length [vectorOf [1, 2]] \<noteq> length [''a'', ''b'']"
  by (simp add: embedBatch_def embedBatch_try_def shortBackend_def withValues_def vectorOf_def)

section \<open>The index command\<close>

lemma lastProgressOf_last:
  "lastProgressOf events = (if events = [] then 0 else percentage (last events))"
  by (induction events rule: rev_induct) (auto simp: lastProgressOf_def)

lemma runIndex_passes:
  "preflightPasses env persisted0 (ensureAbsolutePath (runtime env) pathArg) options \<Longrightarrow>
   runIndex env persisted0 pathArg options =
     runPipeline env (loadCodebaseSnapshot persisted0)
       (ensureAbsolutePath (runtime env) pathArg) options"
  by (auto simp: preflightPasses_def runIndex_def Let_def)

lemma runIndex_stopped_or_running:
  "(\<exists>out. runIndex env persisted0 pathArg options = stopped persisted0 out \<and>
      \<not> preflightPasses env persisted0 (ensureAbsolutePath (runtime env) pathArg) options) \<or>
   (runIndex env persisted0 pathArg options =
      runPipeline env (loadCodebaseSnapshot persisted0)
        (ensureAbsolutePath (runtime env) pathArg) options \<and>
    preflightPasses env persisted0 (ensureAbsolutePath (runtime env) pathArg) options)"
  by (auto simp: preflightPasses_def runIndex_def Let_def split: sum.splits)

lemma runPipeline_not_preflight:
  "\<not> isPreflightFailure (outcome (runPipeline env m p options))"
  by (auto simp: runPipeline_def Let_def split: prod.splits sum.splits)

lemma runPipeline_first_effect:
  "\<exists>rest. effects (runPipeline env m p options) =
      SaveSnapshot (m(p \<mapsto> indexingRecord (timeOfStart env))) # rest"
  by (auto simp: runPipeline_def Let_def setCodebaseIndexing_def indexingRecord_def
      split: prod.splits sum.splits)

lemma ensureAbsolutePath_repo:
  "ensureAbsolutePath (runtime repoEnv) ''/repo'' = ''/repo''"
  by (simp add: ensureAbsolutePath_def repoEnv_def normalizePath_repo)

text \<open>
  Claim C1. When the four pre-flight checks pass and the pipeline then fails, after
  some progress events, with a thrown value: the run ends with exit code 1 and the
  failure message; before that, as the last effect of the run, it has saved a snapshot
  in which the record of the identity is \<open>index_failed\<close> with the message of the error
  and the percentage of the last event (0 when there was none), and this snapshot is
  the persisted state, so that the status operation returns this record. The message is
  the message of the thrown error when it has a non-empty one.
\<close>

theorem runIndex_pipeline_failure:
  assumes "absolutePath = ensureAbsolutePath (runtime env) pathArg"
    and "preflightPasses env persisted0 absolutePath options"
    and "indexCodebase env absolutePath (ext options) (ignore options) (force options) =
           (events, Inl error)"
    and "run = runIndex env persisted0 pathArg options"
  shows "outcome run = Exited (IndexFailedError (''[INDEX] Failed: '' @ failureMessage error)) \<and>
     (\<exists>r. statusOperation (runtime env) (persisted run) pathArg = Some r \<and>
        record_status r = index_failed \<and> lastError r = Some (failureMessage error) \<and>
        progressPercentage r = (if events = [] then 0 else percentage (last events))) \<and>
     (\<exists>m before. persisted run = Some m \<and> effects run = before @ [SaveSnapshot m]) \<and>
     (\<forall>name message. error = ErrorObject name message \<and> message \<noteq> [] \<longrightarrow>
        failureMessage error = message)"
  using assms
  by (auto simp: runIndex_passes runPipeline_def Let_def statusOperation_def
      loadCodebaseSnapshot_def saveCodebaseSnapshot_def setCodebaseIndexFailed_def
      setCodebaseIndexing_def recordOf_def lastProgressOf_last failureMessage_def orDefault_def)

theorem runIndex_pipeline_failure_witness:
  "outcome (runIndex repoEnv None ''/repo'' plainOptions) =
     Exited (IndexFailedError ''[INDEX] Failed: backend timeout'') \<and>
   map_option record_status (statusOperation (runtime repoEnv)
       (persisted (runIndex repoEnv None ''/repo'' plainOptions)) ''/repo'') =
     Some index_failed \<and>
   map_option lastError (statusOperation (runtime repoEnv)
       (persisted (runIndex repoEnv None ''/repo'' plainOptions)) ''/repo'') =
     Some (Some ''backend timeout'') \<and>
   map_option progressPercentage (statusOperation (runtime repoEnv)
       (persisted (runIndex repoEnv None ''/repo'' plainOptions)) ''/repo'') =
     Some 37"
proof -
  have p: "preflightPasses repoEnv None ''/repo'' plainOptions"
    by (simp add: preflightPasses_def repoEnv_def everywhere_def withoutIndex_def
        getCodebaseStatus_def loadCodebaseSnapshot_def)
  have i: "indexCodebase repoEnv ''/repo'' (ext plainOptions) (ignore plainOptions)
      (force plainOptions) =
      ([\<lparr>phase = ''Preparing'', percentage = 0\<rparr>, \<lparr>phase = ''Embedding'', percentage = 37\<rparr>],
       Inl (ErrorObject ''Error'' ''backend timeout''))"
    by (simp add: repoEnv_def timeoutPipeline_def)
  show ?thesis
    using runIndex_pipeline_failure [OF ensureAbsolutePath_repo [symmetric] p i refl]
    by (auto simp: failureMessage_def orDefault_def)
qed

text \<open>
  Claim C2, for a path that exists and is a directory: when the record of the identity
  has status \<open>indexing\<close>, the run ends with the error that the codebase is already being
  indexed, has no effect, and leaves the persisted state, and so the record, as it was.
\<close>

theorem runIndex_while_indexing:
  assumes "absolutePath = ensureAbsolutePath (runtime env) pathArg"
    and "loadCodebaseSnapshot persisted0 absolutePath = Some r"
    and "record_status r = indexing"
    and "existsSync env absolutePath"
    and "isDirectory env absolutePath"
    and "run = runIndex env persisted0 pathArg options"
  shows "outcome run = Exited (ConcurrencyError (alreadyBeingIndexed absolutePath)) \<and>
     persisted run = persisted0 \<and> effects run = [] \<and>
     statusOperation (runtime env) (persisted run) pathArg = Some r"
  using assms
  by (simp add: runIndex_def Let_def stopped_def getCodebaseStatus_def statusOperation_def)

theorem runIndex_while_indexing_witness:
  "outcome (runIndex repoEnv repoIndexing ''/repo'' plainOptions) =
     Exited (ConcurrencyError (alreadyBeingIndexed ''/repo'')) \<and>
   persisted (runIndex repoEnv repoIndexing ''/repo'' plainOptions) = repoIndexing"
proof -
  have l: "loadCodebaseSnapshot repoIndexing ''/repo'' = Some (indexingRecord 1)"
    by (simp add: loadCodebaseSnapshot_def repoIndexing_def)
  have s: "record_status (indexingRecord 1) = indexing"
    by (simp add: indexingRecord_def)
  have e: "existsSync repoEnv ''/repo''" and d: "isDirectory repoEnv ''/repo''"
    by (simp_all add: repoEnv_def everywhere_def)
  show ?thesis
    using runIndex_while_indexing [OF ensureAbsolutePath_repo [symmetric] l s e d refl]
    by simp
qed

text \<open>
  When the record is \<open>indexing\<close> but the path no longer exists, the run ends with the
  path error instead: the check of the path comes first.
\<close>

theorem runIndex_missing_path_counterexample:
  "getCodebaseStatus (loadCodebaseSnapshot repoIndexing) ''/repo'' = indexing \<and>
   outcome (runIndex (repoEnv\<lparr>existsSync := everywhere False\<rparr>) repoIndexing ''/repo''
      plainOptions) = Exited (PathError (doesNotExist ''/repo'')) \<and>
   outcome (runIndex (repoEnv\<lparr>existsSync := everywhere False\<rparr>) repoIndexing ''/repo''
      plainOptions) \<noteq> Exited (ConcurrencyError (alreadyBeingIndexed ''/repo''))"
proof -
  have "ensureAbsolutePath (runtime (repoEnv\<lparr>existsSync := everywhere False\<rparr>)) ''/repo'' = ''/repo''"
    using ensureAbsolutePath_repo by simp
  then show ?thesis
    by (simp add: runIndex_def Let_def stopped_def everywhere_def getCodebaseStatus_def
        loadCodebaseSnapshot_def repoIndexing_def indexingRecord_def)
qed

text \<open>
  Claim C3. A run that ends in one of the four pre-flight failures has no effect and
  leaves the persisted state as it was. The run has an effect, or changes the persisted
  state, only when all four checks pass, and then its first effect is to save the
  snapshot in which the identity is \<open>indexing\<close> with progress 0. The checks run in the
  order path, concurrency, existing index, capacity: each failure is reported when the
  checks before it pass, whatever the later ones would say.
\<close>

theorem runIndex_preflight:
  assumes "absolutePath = ensureAbsolutePath (runtime env) pathArg"
    and "run = runIndex env persisted0 pathArg options"
  shows "(isPreflightFailure (outcome run) \<longrightarrow> persisted run = persisted0 \<and> effects run = []) \<and>
   (effects run \<noteq> [] \<or> persisted run \<noteq> persisted0 \<longrightarrow>
      preflightPasses env persisted0 absolutePath options) \<and>
   (preflightPasses env persisted0 absolutePath options \<longrightarrow>
      (\<exists>rest. effects run =
         SaveSnapshot ((loadCodebaseSnapshot persisted0)
           (absolutePath \<mapsto> indexingRecord (timeOfStart env))) # rest)) \<and>
   (\<not> existsSync env absolutePath \<longrightarrow>
      outcome run = Exited (PathError (doesNotExist absolutePath))) \<and>
   (existsSync env absolutePath \<and> \<not> isDirectory env absolutePath \<longrightarrow>
      outcome run = Exited (PathError (isNotADirectory absolutePath))) \<and>
   (existsSync env absolutePath \<and> isDirectory env absolutePath \<and>
    getCodebaseStatus (loadCodebaseSnapshot persisted0) absolutePath = indexing \<longrightarrow>
      outcome run = Exited (ConcurrencyError (alreadyBeingIndexed absolutePath))) \<and>
   (existsSync env absolutePath \<and> isDirectory env absolutePath \<and>
    getCodebaseStatus (loadCodebaseSnapshot persisted0) absolutePath \<noteq> indexing \<and>
    hasIndex env absolutePath = Inr True \<and> \<not> force options \<longrightarrow>
      outcome run = Exited (AlreadyIndexedError (alreadyIndexed absolutePath))) \<and>
   (existsSync env absolutePath \<and> isDirectory env absolutePath \<and>
    getCodebaseStatus (loadCodebaseSnapshot persisted0) absolutePath \<noteq> indexing \<and>
    (hasIndex env absolutePath = Inr False \<or>
     hasIndex env absolutePath = Inr True \<and> force options) \<and>
    checkCollectionLimit env = Inr False \<longrightarrow>
      outcome run = Exited (CapacityError (COLLECTION_LIMIT_MESSAGE env)))"
proof -
  let ?p = "ensureAbsolutePath (runtime env) pathArg"
  let ?r = "runIndex env persisted0 pathArg options"
  have a: "isPreflightFailure (outcome ?r) \<longrightarrow> persisted ?r = persisted0 \<and> effects ?r = []"
    using runIndex_stopped_or_running [of env persisted0 pathArg options]
      runPipeline_not_preflight [of env "loadCodebaseSnapshot persisted0" ?p options]
    by (auto simp: stopped_def)
  have b: "effects ?r \<noteq> [] \<or> persisted ?r \<noteq> persisted0 \<longrightarrow>
      preflightPasses env persisted0 ?p options"
    using runIndex_stopped_or_running [of env persisted0 pathArg options]
    by (auto simp: stopped_def)
  have c: "preflightPasses env persisted0 ?p options \<longrightarrow>
      (\<exists>rest. effects ?r =
         SaveSnapshot ((loadCodebaseSnapshot persisted0)
           (?p \<mapsto> indexingRecord (timeOfStart env))) # rest)"
    using runPipeline_first_effect [of env "loadCodebaseSnapshot persisted0" ?p options]
    by (auto simp: runIndex_passes)
  have d: "\<not> existsSync env ?p \<longrightarrow> outcome ?r = Exited (PathError (doesNotExist ?p))"
    by (simp add: runIndex_def Let_def stopped_def)
  have e: "existsSync env ?p \<and> \<not> isDirectory env ?p \<longrightarrow>
      outcome ?r = Exited (PathError (isNotADirectory ?p))"
    by (simp add: runIndex_def Let_def stopped_def)
  have f: "existsSync env ?p \<and> isDirectory env ?p \<and>
      getCodebaseStatus (loadCodebaseSnapshot persisted0) ?p = indexing \<longrightarrow>
      outcome ?r = Exited (ConcurrencyError (alreadyBeingIndexed ?p))"
    by (simp add: runIndex_def Let_def stopped_def)
  have g: "existsSync env ?p \<and> isDirectory env ?p \<and>
      getCodebaseStatus (loadCodebaseSnapshot persisted0) ?p \<noteq> indexing \<and>
      hasIndex env ?p = Inr True \<and> \<not> force options \<longrightarrow>
      outcome ?r = Exited (AlreadyIndexedError (alreadyIndexed ?p))"
    by (simp add: runIndex_def Let_def stopped_def)
  have h: "existsSync env ?p \<and> isDirectory env ?p \<and>
      getCodebaseStatus (loadCodebaseSnapshot persisted0) ?p \<noteq> indexing \<and>
      (hasIndex env ?p = Inr False \<or> hasIndex env ?p = Inr True \<and> force options) \<and>
      checkCollectionLimit env = Inr False \<longrightarrow>
      outcome ?r = Exited (CapacityError (COLLECTION_LIMIT_MESSAGE env))"
    by (auto simp: runIndex_def Let_def stopped_def)
  from a b c d e f g h show ?thesis
    unfolding assms by blast
qed

theorem runIndex_preflight_witness:
  "outcome (runIndex (repoEnv\<lparr>checkCollectionLimit := Inr False\<rparr>) None ''/repo'' plainOptions) =
     Exited (CapacityError ''collection limit reached'') \<and>
   persisted (runIndex (repoEnv\<lparr>checkCollectionLimit := Inr False\<rparr>) None ''/repo''
     plainOptions) = None \<and>
   effects (runIndex (repoEnv\<lparr>checkCollectionLimit := Inr False\<rparr>) None ''/repo''
     plainOptions) = [] \<and>
   hd (effects (runIndex repoEnv None ''/repo'' plainOptions)) =
     SaveSnapshot (Map.empty(''/repo'' \<mapsto> indexingRecord 1))"
proof -
  let ?full = "repoEnv\<lparr>checkCollectionLimit := Inr False\<rparr>"
  have q: "ensureAbsolutePath (runtime ?full) ''/repo'' = ''/repo''"
    using ensureAbsolutePath_repo by simp
  have c: "existsSync ?full ''/repo'' \<and> isDirectory ?full ''/repo'' \<and>
      getCodebaseStatus (loadCodebaseSnapshot None) ''/repo'' \<noteq> indexing \<and>
      hasIndex ?full ''/repo'' = Inr False \<and> checkCollectionLimit ?full = Inr False \<and>
      COLLECTION_LIMIT_MESSAGE ?full = ''collection limit reached''"
    by (simp add: repoEnv_def everywhere_def withoutIndex_def getCodebaseStatus_def
        loadCodebaseSnapshot_def)
  have p: "preflightPasses repoEnv None ''/repo'' plainOptions"
    by (simp add: preflightPasses_def repoEnv_def everywhere_def withoutIndex_def
        getCodebaseStatus_def loadCodebaseSnapshot_def)
  have t: "timeOfStart repoEnv = 1"
    by (simp add: repoEnv_def)
  from runIndex_preflight [OF q [symmetric] refl, of None plainOptions] c
  have 1: "outcome (runIndex ?full None ''/repo'' plainOptions) =
      Exited (CapacityError ''collection limit reached'')"
    by simp
  with runIndex_preflight [OF q [symmetric] refl, of None plainOptions]
  have 2: "persisted (runIndex ?full None ''/repo'' plainOptions) = None \<and>
      effects (runIndex ?full None ''/repo'' plainOptions) = []"
    by simp
  from runIndex_preflight [OF ensureAbsolutePath_repo [symmetric] refl, of None plainOptions] p
  obtain rest where "effects (runIndex repoEnv None ''/repo'' plainOptions) =
      SaveSnapshot ((loadCodebaseSnapshot None)
        (''/repo'' \<mapsto> indexingRecord (timeOfStart repoEnv))) # rest"
    by blast
  then have 3: "hd (effects (runIndex repoEnv None ''/repo'' plainOptions)) =
      SaveSnapshot (Map.empty(''/repo'' \<mapsto> indexingRecord 1))"
    by (simp add: t loadCodebaseSnapshot_def)
  from 1 2 3 show ?thesis by simp
qed

end
